theory Spec2Isabelle
  imports Main "HOL-Library.Word" "HOL-Library.Sublist"
begin

section \<open>The PolySync CAN reader example (CANReader/main.cpp)\<close>

text \<open>
  The program is a thin client of the PolySync SDK: a node class with four lifecycle
  callbacks and a \<open>main\<close> that parses the channel identifier. The SDK itself is not
  part of the sources. Its calls are therefore modelled as events of a trace, in the order
  the code makes them, and what a call answers (a value, or a thrown exception) is an
  argument of the function that makes the call. The constants the SDK headers define are
  taken as parameters.
\<close>

subsection \<open>Machine integers, exceptions, SDK constants\<close>

text \<open>\<open>uint\<close> is \<open>unsigned int\<close> (32 bits); \<open>unsigned long\<close>, the result type of
  \<open>std::stoul\<close>, has 64 bits on the LP64 platforms the SDK runs on.\<close>

type_synonym c_uint = "32 word"
type_synonym c_ulong = "64 word"

text \<open>
  The exceptions that occur: \<open>polysync::DTCException\<close> with its diagnostic code
  (\<open>getDtc()\<close>) and message (\<open>what()\<close>); the two exceptions of \<open>std::stoul\<close>; any other
  exception derived from \<open>std::exception\<close>; and an exception that is not derived from it.
\<close>

datatype exn =
    DTCException nat string
  | invalid_argument
  | out_of_range
  | StdException string
  | NonStdException

text \<open>What \<open>catch( std::exception & )\<close> matches.\<close>

fun is_std_exception :: "exn \<Rightarrow> bool" where
  "is_std_exception NonStdException = False"
| "is_std_exception _ = True"

text \<open>The constants of the SDK headers that the source names; their values are not in the
  sources, so every function that uses one takes this record.\<close>

record sdk =
  PSYNC_CAN_OPEN_ALLOW_VIRTUAL :: c_uint
  DATARATE_500K :: nat
  NODE_STATE_ERROR :: nat
  DTC_UNAVAILABLE :: nat

subsection \<open>The node and its trace\<close>

text \<open>
  A frame as the channel holds it after \<open>read()\<close>: the bytes \<open>read()\<close> returns, and what
  \<open>getInputFrameId()\<close> and \<open>getInputFramePayloadSize()\<close> answer afterwards.
\<close>

record frame =
  buffer :: "8 word list"
  getInputFrameId :: nat
  getInputFramePayloadSize :: nat

text \<open>
  Everything the program does to the outside, in order: a line written to \<open>std::cout\<close>
  (each ended by \<open>std::endl\<close>), and the calls into the SDK. A channel is named by the pointer
  \<open>new\<close> returned. \<open>New_CANChannel\<close> also records what the constructor answered.
\<close>

datatype event =
    Print string
  | New_CANChannel c_uint c_uint "exn + nat"
  | SetBitRate nat nat
  | GoOnBus nat
  | GoOffBus nat
  | Read nat
  | Delete nat
  | ActivateFault nat nat
  | DisconnectPolySync
  | SetNodeName string

text \<open>The private members of \<open>CANReaderNode\<close> (\<open>channel = None\<close> is \<open>nullptr\<close>), and the
  trace so far.\<close>

record state =
  channel :: "nat option"
  channelID :: c_uint
  flags :: c_uint
  bitRate :: nat
  trace :: "event list"

text \<open>How a call ends: it returns, an exception leaves it, or it dereferences a null
  pointer (undefined behaviour; the model stops there).\<close>

datatype outcome = Returns | Throws exn | NullDeref

definition emit :: "event \<Rightarrow> state \<Rightarrow> state" where
  "emit e s = s\<lparr>trace := trace s @ [e]\<rparr>"

definition println :: "string \<Rightarrow> state \<Rightarrow> state" where
  "println l s = emit (Print l) s"

subsection \<open>Printing an unsigned integer\<close>

text \<open>\<open>std::cout << n\<close> for an unsigned integer \<open>n\<close>: no manipulator is ever applied to the
  stream, so the digits are decimal.\<close>

definition digit :: "nat \<Rightarrow> char" where
  "digit d = ''0123456789'' ! d"

function decimal :: "nat \<Rightarrow> string" where
  "decimal n = (if n < 10 then [digit n] else decimal (n div 10) @ [digit (n mod 10)])"
  by pat_completeness auto
termination
  by (relation "measure id") auto

declare decimal.simps [simp del]

subsection \<open>The node: \<open>CANReaderNode\<close>\<close>

text \<open>The constructor, with the default member initialisers.\<close>

definition CANReaderNode :: "sdk \<Rightarrow> c_uint \<Rightarrow> state" where
  "CANReaderNode K channelID' =
     \<lparr>channel = None, channelID = channelID',
      flags = PSYNC_CAN_OPEN_ALLOW_VIRTUAL K, bitRate = DATARATE_500K K, trace = []\<rparr>"

text \<open>The destructor.\<close>

definition destructor :: "exn option \<Rightarrow> state \<Rightarrow> outcome \<times> state" where
  "destructor goOffBus_r s =
     (case channel s of
        None \<Rightarrow> (Returns, s)
      | Some h \<Rightarrow>
          (let s1 = emit (GoOffBus h) s
           in (case goOffBus_r of
                 Some x \<Rightarrow> (Throws x, s1)
               | None \<Rightarrow> (Returns, (emit (Delete h) s1)\<lparr>channel := None\<rparr>))))"

text \<open>The handler of \<open>initStateEvent\<close>: only a \<open>DTCException\<close> is caught.\<close>

definition init_catch :: "sdk \<Rightarrow> exn \<Rightarrow> state \<Rightarrow> outcome \<times> state" where
  "init_catch K x s =
     (case x of
        DTCException d msg \<Rightarrow>
          (Returns, emit (ActivateFault d (NODE_STATE_ERROR K))
                      (println msg (println ''exception'' s)))
      | _ \<Rightarrow> (Throws x, s))"

text \<open>\<open>initStateEvent\<close>. The channel is allocated before the \<open>try\<close> block: an exception
  of the constructor leaves the function, and \<open>_channel\<close> is not assigned.\<close>

definition initStateEvent ::
  "sdk \<Rightarrow> exn + nat \<Rightarrow> exn option \<Rightarrow> exn option \<Rightarrow> state \<Rightarrow> outcome \<times> state" where
  "initStateEvent K new_r setBitRate_r goOnBus_r s =
     (let s1 = println ''CANReaderNode::initStateEvent()'' s;
          s2 = emit (New_CANChannel (channelID s1) (flags s1) new_r) s1
      in (case new_r of
            Inl x \<Rightarrow> (Throws x, s2)
          | Inr h \<Rightarrow>
              (let s3 = println ''before psync calls'' (s2\<lparr>channel := Some h\<rparr>);
                   s4 = emit (SetBitRate h (bitRate s3)) s3
               in (case setBitRate_r of
                     Some x \<Rightarrow> init_catch K x s4
                   | None \<Rightarrow>
                       (let s5 = emit (GoOnBus h) s4
                        in (case goOnBus_r of
                              Some x \<Rightarrow> init_catch K x s5
                            | None \<Rightarrow> (Returns, println ''after psync calls'' s5)))))))"

text \<open>\<open>okStateEvent\<close>. \<open>_channel->read()\<close> comes first and has no null check.\<close>

definition okStateEvent :: "sdk \<Rightarrow> exn + frame \<Rightarrow> state \<Rightarrow> outcome \<times> state" where
  "okStateEvent K read_r s =
     (case channel s of
        None \<Rightarrow> (NullDeref, s)
      | Some h \<Rightarrow>
          (let s1 = emit (Read h) s
           in (case read_r of
                 Inr f \<Rightarrow>
                   (Returns,
                    println (''DLC: '' @ decimal (getInputFramePayloadSize f))
                      (println (''CAN frame - ID: 0x'' @ decimal (getInputFrameId f)) s1))
               | Inl (DTCException d msg) \<Rightarrow>
                   (if d \<noteq> DTC_UNAVAILABLE K
                    then (Returns, emit (ActivateFault d (NODE_STATE_ERROR K)) (println msg s1))
                    else (Returns, s1))
               | Inl x \<Rightarrow> (Throws x, s1))))"

text \<open>\<open>releaseStateEvent\<close>.\<close>

definition releaseStateEvent :: "exn option \<Rightarrow> state \<Rightarrow> outcome \<times> state" where
  "releaseStateEvent goOffBus_r s =
     (let s1 = println ''CANReaderNode::releaseStateEvent()'' s
      in (case channel s1 of
            None \<Rightarrow> (Returns, s1)
          | Some h \<Rightarrow>
              (let s2 = emit (GoOffBus h) s1
               in (case goOffBus_r of
                     Some x \<Rightarrow> (Throws x, s2)
                   | None \<Rightarrow> (Returns, (emit (Delete h) s2)\<lparr>channel := None\<rparr>)))))"

text \<open>\<open>errorStateEvent\<close>.\<close>

definition errorStateEvent :: "state \<Rightarrow> outcome \<times> state" where
  "errorStateEvent s =
     (Returns, emit DisconnectPolySync (println ''CANReaderNode::errorStateEvent()'' s))"

subsection \<open>The host as a scheduler of callbacks\<close>

text \<open>
  The node runtime that dispatches the callbacks is not in the sources. It can reach the
  node's private members only through the four callbacks, so a run of the node is a list of
  callbacks, each with the answers of the channel calls it makes. An exception that leaves
  a callback goes to the runtime, which may go on dispatching; a null dereference ends the
  run.
\<close>

datatype callback =
    InitStateEvent "exn + nat" "exn option" "exn option"
  | OkStateEvent "exn + frame"
  | ErrorStateEvent
  | ReleaseStateEvent "exn option"

fun dispatch :: "sdk \<Rightarrow> callback \<Rightarrow> state \<Rightarrow> outcome \<times> state" where
  "dispatch K (InitStateEvent a b c) s = initStateEvent K a b c s"
| "dispatch K (OkStateEvent r) s = okStateEvent K r s"
| "dispatch K ErrorStateEvent s = errorStateEvent s"
| "dispatch K (ReleaseStateEvent r) s = releaseStateEvent r s"

fun run :: "sdk \<Rightarrow> callback list \<Rightarrow> state \<Rightarrow> outcome \<times> state" where
  "run K [] s = (Returns, s)"
| "run K (cb # cbs) s =
     (case dispatch K cb s of
        (NullDeref, s') \<Rightarrow> (NullDeref, s')
      | (_, s') \<Rightarrow> run K cbs s')"

subsection \<open>\<open>std::stoul\<close>\<close>

text \<open>
  \<open>std::stoul( str )\<close> with the default base 10, as the C++ standard defines it through
  \<open>strtoul\<close>: leading white space is skipped, one sign is accepted, then the longest run
  of decimal digits is read and the rest of the string is ignored. No digit:
  \<open>std::invalid_argument\<close>. A magnitude beyond \<open>ULONG_MAX\<close>: \<open>std::out_of_range\<close>. With
  a minus sign the value is negated in \<open>unsigned long\<close>.
\<close>

definition isspace :: "char \<Rightarrow> bool" where
  "isspace c = (c = CHR '' '' \<or> (9 \<le> (of_char c :: nat) \<and> (of_char c :: nat) \<le> 13))"

definition isdigit :: "char \<Rightarrow> bool" where
  "isdigit c = (48 \<le> (of_char c :: nat) \<and> (of_char c :: nat) \<le> 57)"

definition digits_value :: "string \<Rightarrow> nat" where
  "digits_value ds = foldl (\<lambda>a c. 10 * a + (of_char c - 48)) 0 ds"

definition ULONG_MAX :: nat where
  "ULONG_MAX = 2 ^ 64 - 1"

definition stoul :: "string \<Rightarrow> exn + c_ulong" where
  "stoul str =
     (let s1 = dropWhile isspace str;
          neg = (s1 \<noteq> [] \<and> hd s1 = CHR ''-'');
          s2 = (if s1 \<noteq> [] \<and> (hd s1 = CHR ''-'' \<or> hd s1 = CHR ''+'') then tl s1 else s1);
          ds = takeWhile isdigit s2
      in if ds = [] then Inl invalid_argument
         else if digits_value ds > ULONG_MAX then Inl out_of_range
         else Inr (if neg then - word_of_nat (digits_value ds) else word_of_nat (digits_value ds)))"

subsection \<open>\<open>main\<close>\<close>

text \<open>
  What \<open>main\<close> meets outside the node: whether the constructor of the base class
  \<open>polysync::Node\<close> and \<open>setNodeName\<close> throw, what \<open>connectPolySync\<close> does with the
  node, and what \<open>goOffBus\<close> answers when the destructor calls it.
\<close>

record main_env =
  Node_ctor_r :: "exn option"
  setNodeName_r :: "exn option"
  connectPolySync :: "state \<Rightarrow> outcome \<times> state"
  dtor_goOffBus_r :: "exn option"

text \<open>How the process ends: \<open>main\<close> returns a code, \<open>std::terminate\<close> is called (an
  exception nothing catches, or one that leaves the destructor, which is \<open>noexcept\<close>), or
  the behaviour is undefined.\<close>

datatype exit = Exit int | Terminate | Undefined

definition usage_invalid :: "event list" where
  "usage_invalid =
     [Print ''Invalid argument. This example requires valid integer input representing a CAN channel.'',
      Print ''For example: polysync-can-reader-cpp 1'']"

definition usage_missing :: "event list" where
  "usage_missing =
     [Print ''Must pass CAN channel argument.'',
      Print ''For example: polysync-can-reader-cpp 1'']"

text \<open>The handler of \<open>main\<close>, entered with the trace so far.\<close>

definition main_catch :: "exn \<Rightarrow> event list \<Rightarrow> exit \<times> event list" where
  "main_catch x tr =
     (if is_std_exception x then (Exit 1, tr @ usage_invalid) else (Terminate, tr))"

text \<open>An exception leaves the \<open>try\<close> block while \<open>canReader\<close> is alive: when a handler
  matches, the destructor runs first.\<close>

definition unwind :: "main_env \<Rightarrow> exn \<Rightarrow> state \<Rightarrow> exit \<times> event list" where
  "unwind E x s =
     (if is_std_exception x
      then (case destructor (dtor_goOffBus_r E) s of
              (Returns, s') \<Rightarrow> main_catch x (trace s')
            | (_, s') \<Rightarrow> (Terminate, trace s'))
      else (Terminate, trace s))"

text \<open>The \<open>try\<close> block once \<open>std::stoul\<close> has returned \<open>n\<close>; the conversion to \<open>uint\<close>
  keeps the low 32 bits.\<close>

definition try_block :: "sdk \<Rightarrow> main_env \<Rightarrow> c_ulong \<Rightarrow> exit \<times> event list" where
  "try_block K E n =
     (case Node_ctor_r E of
        Some x \<Rightarrow> main_catch x []
      | None \<Rightarrow>
          (let s0 = CANReaderNode K (ucast n);
               s1 = emit (SetNodeName ''polysync-can-reader-cpp'') s0
           in (case setNodeName_r E of
                 Some x \<Rightarrow> unwind E x s1
               | None \<Rightarrow>
                   (case connectPolySync E s1 of
                      (Returns, s2) \<Rightarrow>
                        (case destructor (dtor_goOffBus_r E) s2 of
                           (Returns, s3) \<Rightarrow> (Exit 0, trace s3)
                         | (_, s3) \<Rightarrow> (Terminate, trace s3))
                    | (Throws x, s2) \<Rightarrow> unwind E x s2
                    | (NullDeref, s2) \<Rightarrow> (Undefined, trace s2)))))"

text \<open>\<open>main\<close>: \<open>argv\<close> is the whole argument vector, the program's name first.\<close>

definition main :: "sdk \<Rightarrow> main_env \<Rightarrow> string list \<Rightarrow> exit \<times> event list" where
  "main K E argv =
     (if length argv > 1
      then (case stoul (argv ! 1) of
              Inl x \<Rightarrow> main_catch x []
            | Inr n \<Rightarrow> try_block K E n)
      else (Exit 1, usage_missing))"

subsection \<open>Reading a trace\<close>

text \<open>
  The handle a trace leaves allocated: a \<open>new\<close> that returned a pointer allocates it, a
  \<open>delete\<close> frees it. This follows the words of the data model (a handle is held from
  allocation to teardown), not the code; the node's \<open>_channel\<close> is compared with it.
\<close>

fun held_step :: "nat option \<Rightarrow> event \<Rightarrow> nat option" where
  "held_step h (New_CANChannel i f (Inr p)) = Some p"
| "held_step h (Delete p) = None"
| "held_step h e = h"

definition allocated_handle :: "event list \<Rightarrow> nat option" where
  "allocated_handle tr = foldl held_step None tr"





subsection \<open>Sample environments\<close>

text \<open>Concrete values at which the theorems below are instantiated. The numbers chosen for
  the SDK's constants are arbitrary.\<close>

definition sample_sdk :: sdk where
  "sample_sdk =
     \<lparr>PSYNC_CAN_OPEN_ALLOW_VIRTUAL = 1, DATARATE_500K = 2, NODE_STATE_ERROR = 3,
      DTC_UNAVAILABLE = 4\<rparr>"

definition sample_frame :: frame where
  "sample_frame = \<lparr>buffer = [1, 2, 3, 4], getInputFrameId = 0x123, getInputFramePayloadSize = 4\<rparr>"

text \<open>A runtime that initialises the node, polls once and releases it.\<close>

definition sample_host :: main_env where
  "sample_host =
     \<lparr>Node_ctor_r = None, setNodeName_r = None,
      connectPolySync =
        run sample_sdk
          [InitStateEvent (Inr 7) None None, OkStateEvent (Inr sample_frame),
           ReleaseStateEvent None],
      dtor_goOffBus_r = None\<rparr>"

text \<open>A runtime that initialises the node and then lets a \<open>DTCException\<close> escape.\<close>

definition throwing_host :: main_env where
  "throwing_host =
     \<lparr>Node_ctor_r = None, setNodeName_r = None,
      connectPolySync =
        (\<lambda>s. (Throws (DTCException 9 ''bus off''),
              snd (run sample_sdk [InitStateEvent (Inr 7) None None] s))),
      dtor_goOffBus_r = None\<rparr>"

section \<open>Properties\<close>

subsection \<open>Evaluation lemmas\<close>

lemma sample_sdk_simps [simp]:
  "PSYNC_CAN_OPEN_ALLOW_VIRTUAL sample_sdk = 1" "DATARATE_500K sample_sdk = 2"
  "NODE_STATE_ERROR sample_sdk = 3" "DTC_UNAVAILABLE sample_sdk = 4"
  by (simp_all add: sample_sdk_def)

lemma decimal_291: "decimal 291 = ''291''"
  by (simp add: decimal.simps digit_def)

lemma decimal_4: "decimal 4 = ''4''"
  by (simp add: decimal.simps digit_def)

text \<open>\<open>decimal\<close> writes the number that the digit reader of \<open>stoul\<close> reads back.\<close>

lemma of_char_digit: "d < 10 \<Longrightarrow> (of_char (digit d) :: nat) = 48 + d"
proof -
  assume "d < 10"
  then consider "d = 0" | "d = 1" | "d = 2" | "d = 3" | "d = 4"
    | "d = 5" | "d = 6" | "d = 7" | "d = 8" | "d = 9"
    by force
  then show ?thesis
    by cases (simp_all add: digit_def)
qed

lemma digits_value_snoc: "digits_value (ds @ [c]) = 10 * digits_value ds + (of_char c - 48)"
  by (simp add: digits_value_def)

lemma digits_value_decimal: "digits_value (decimal n) = n"
proof (induction n rule: decimal.induct)
  case (1 n)
  show ?case
  proof (cases "n < 10")
    case True
    then show ?thesis
      by (subst decimal.simps) (simp add: digits_value_def of_char_digit)
  next
    case False
    with "1" have "digits_value (decimal (n div 10)) = n div 10"
      by simp
    with False show ?thesis
      by (subst decimal.simps) (simp add: digits_value_snoc of_char_digit)
  qed
qed

subsection \<open>\<open>std::stoul\<close> on sample arguments\<close>

lemmas stoul_eval = stoul_def isspace_def isdigit_def digits_value_def ULONG_MAX_def

lemma stoul_5: "stoul ''5'' = Inr 5"
  by (simp add: stoul_eval)

lemma stoul_5abc: "stoul ''5abc'' = Inr 5"
  by (simp add: stoul_eval)

lemma stoul_minus_1: "stoul ''-1'' = Inr (- 1)"
  by (simp add: stoul_eval)

lemma stoul_minus_1_value: "stoul ''-1'' = Inr 18446744073709551615"
  by (simp add: stoul_minus_1)

lemma ucast_minus_1: "(ucast (- 1 :: c_ulong) :: c_uint) = 4294967295"
  by (simp add: unsigned_minus_1_eq_mask mask_eq_exp_minus_1)

lemma stoul_abc: "stoul ''abc'' = Inl invalid_argument"
  by (simp add: stoul_eval)

lemma stoul_too_large: "stoul ''18446744073709551616'' = Inl out_of_range"
  by (simp add: stoul_eval)

lemma stoul_Inl: "stoul str = Inl x \<Longrightarrow> x = invalid_argument \<or> x = out_of_range"
  by (auto simp: stoul_def Let_def split: if_splits)

subsection \<open>\<open>okStateEvent\<close>\<close>

lemma okStateEvent_frame:
  "channel s = Some h \<Longrightarrow>
   okStateEvent K (Inr f) s =
     (Returns, s\<lparr>trace := trace s @
        [Read h,
         Print (''CAN frame - ID: 0x'' @ decimal (getInputFrameId f)),
         Print (''DLC: '' @ decimal (getInputFramePayloadSize f))]\<rparr>)"
  by (simp add: okStateEvent_def emit_def println_def)

lemma okStateEvent_unavailable:
  "channel s = Some h \<Longrightarrow>
   okStateEvent K (Inl (DTCException (DTC_UNAVAILABLE K) msg)) s =
     (Returns, s\<lparr>trace := trace s @ [Read h]\<rparr>)"
  by (simp add: okStateEvent_def emit_def)

lemma okStateEvent_fatal:
  "channel s = Some h \<Longrightarrow> d \<noteq> DTC_UNAVAILABLE K \<Longrightarrow>
   okStateEvent K (Inl (DTCException d msg)) s =
     (Returns, s\<lparr>trace := trace s @ [Read h, Print msg, ActivateFault d (NODE_STATE_ERROR K)]\<rparr>)"
  by (simp add: okStateEvent_def emit_def println_def)

lemma run_empty_polls:
  "channel s = Some h \<Longrightarrow>
   run K (map (\<lambda>m. OkStateEvent (Inl (DTCException (DTC_UNAVAILABLE K) m))) msgs) s =
     (Returns, s\<lparr>trace := trace s @ replicate (length msgs) (Read h)\<rparr>)"
proof (induction msgs arbitrary: s)
  case Nil
  then show ?case by simp
next
  case (Cons m msgs)
  have "channel (s\<lparr>trace := trace s @ [Read h]\<rparr>) = Some h"
    using Cons.prems by simp
  from Cons.IH [OF this] show ?case
    using Cons.prems by (simp add: okStateEvent_unavailable replicate_app_Cons_same)
qed

text \<open>
  C1. On a successful read \<open>okStateEvent\<close> prints the payload length in decimal, and it
  prints the identifier in decimal too: the literal \<open>0x\<close> is followed by the digits that
  \<open>std::cout\<close> writes for an unsigned integer with no \<open>std::hex\<close> applied. A frame with
  identifier \<open>0x123\<close> (291) and payload length 4 gives the lines \<open>CAN frame - ID: 0x291\<close>
  and \<open>DLC: 4\<close>; neither contains \<open>0x123\<close>.
\<close>

theorem okStateEvent_prints_identifier_in_decimal:
  "okStateEvent K
     (Inr \<lparr>buffer = bs, getInputFrameId = 0x123, getInputFramePayloadSize = 4\<rparr>)
     ((CANReaderNode K n)\<lparr>channel := Some h\<rparr>) =
     (Returns, (CANReaderNode K n)\<lparr>channel := Some h,
        trace := [Read h, Print ''CAN frame - ID: 0x291'', Print ''DLC: 4'']\<rparr>)
   \<and> \<not> sublist ''0x123'' ''CAN frame - ID: 0x291''
   \<and> \<not> sublist ''0x123'' ''DLC: 4''"
  by (simp add: okStateEvent_frame decimal_291 decimal_4 CANReaderNode_def
      sublist_Cons_right prefix_Cons)

text \<open>
  C2. A read in the running state (the node holds a channel) that fails with a
  \<open>DTCException\<close>: with the code \<open>DTC_UNAVAILABLE\<close> the callback returns, nothing is
  printed, no fault is activated and the node's members are unchanged (the trace grows by
  the \<open>read\<close> call alone), and this stays so for any number of such polls in a row; with
  any other code the message is printed and \<open>activateFault\<close> is called with that code and
  \<open>NODE_STATE_ERROR\<close>.
\<close>

theorem okStateEvent_read_failure:
  "channel s = Some h \<Longrightarrow>
     okStateEvent K (Inl (DTCException (DTC_UNAVAILABLE K) msg)) s =
       (Returns, s\<lparr>trace := trace s @ [Read h]\<rparr>)
   \<and> run K (map (\<lambda>m. OkStateEvent (Inl (DTCException (DTC_UNAVAILABLE K) m))) msgs) s =
       (Returns, s\<lparr>trace := trace s @ replicate (length msgs) (Read h)\<rparr>)
   \<and> (d \<noteq> DTC_UNAVAILABLE K \<longrightarrow>
       okStateEvent K (Inl (DTCException d msg)) s =
         (Returns, s\<lparr>trace := trace s @
            [Read h, Print msg, ActivateFault d (NODE_STATE_ERROR K)]\<rparr>))"
  by (simp add: okStateEvent_unavailable okStateEvent_fatal run_empty_polls)

text \<open>C2 at a node that holds channel 7: one empty poll, three in a row, and a read that
  fails with code 9, which is not \<open>DTC_UNAVAILABLE\<close>.\<close>

theorem okStateEvent_read_failure_witness:
  "okStateEvent sample_sdk (Inl (DTCException 4 ''no data''))
       ((CANReaderNode sample_sdk 5)\<lparr>channel := Some 7\<rparr>) =
     (Returns, (CANReaderNode sample_sdk 5)\<lparr>channel := Some 7, trace := [Read 7]\<rparr>)
   \<and> run sample_sdk
       [OkStateEvent (Inl (DTCException 4 ''no data'')),
        OkStateEvent (Inl (DTCException 4 ''still none'')),
        OkStateEvent (Inl (DTCException 4 ''nothing''))]
       ((CANReaderNode sample_sdk 5)\<lparr>channel := Some 7\<rparr>) =
     (Returns, (CANReaderNode sample_sdk 5)\<lparr>channel := Some 7, trace := [Read 7, Read 7, Read 7]\<rparr>)
   \<and> okStateEvent sample_sdk (Inl (DTCException 9 ''bus off''))
       ((CANReaderNode sample_sdk 5)\<lparr>channel := Some 7\<rparr>) =
     (Returns, (CANReaderNode sample_sdk 5)\<lparr>channel := Some 7,
        trace := [Read 7, Print ''bus off'', ActivateFault 9 3]\<rparr>)"
  using okStateEvent_read_failure
    [of "(CANReaderNode sample_sdk 5)\<lparr>channel := Some 7\<rparr>" 7 sample_sdk "''no data''"
        "[''no data'', ''still none'', ''nothing'']" 9]
    okStateEvent_read_failure
    [of "(CANReaderNode sample_sdk 5)\<lparr>channel := Some 7\<rparr>" 7 sample_sdk "''bus off''" "[]" 9]
  by (simp add: CANReaderNode_def okStateEvent_def emit_def println_def)

subsection \<open>\<open>initStateEvent\<close>\<close>

lemma initStateEvent_setBitRate_failure:
  "initStateEvent K (Inr h) (Some (DTCException d msg)) goOnBus_r s =
     (Returns, s\<lparr>channel := Some h, trace := trace s @
        [Print ''CANReaderNode::initStateEvent()'',
         New_CANChannel (channelID s) (flags s) (Inr h),
         Print ''before psync calls'', SetBitRate h (bitRate s),
         Print ''exception'', Print msg, ActivateFault d (NODE_STATE_ERROR K)]\<rparr>)"
  by (simp add: initStateEvent_def init_catch_def emit_def println_def)

lemma initStateEvent_goOnBus_failure:
  "initStateEvent K (Inr h) None (Some (DTCException d msg)) s =
     (Returns, s\<lparr>channel := Some h, trace := trace s @
        [Print ''CANReaderNode::initStateEvent()'',
         New_CANChannel (channelID s) (flags s) (Inr h),
         Print ''before psync calls'', SetBitRate h (bitRate s), GoOnBus h,
         Print ''exception'', Print msg, ActivateFault d (NODE_STATE_ERROR K)]\<rparr>)"
  by (simp add: initStateEvent_def init_catch_def emit_def println_def)

lemma initStateEvent_success:
  "initStateEvent K (Inr h) None None s =
     (Returns, s\<lparr>channel := Some h, trace := trace s @
        [Print ''CANReaderNode::initStateEvent()'',
         New_CANChannel (channelID s) (flags s) (Inr h),
         Print ''before psync calls'', SetBitRate h (bitRate s), GoOnBus h,
         Print ''after psync calls'']\<rparr>)"
  by (simp add: initStateEvent_def emit_def println_def)

lemma channel_initStateEvent:
  "channel (snd (initStateEvent K new_r a b s)) =
     (case new_r of Inl x \<Rightarrow> channel s | Inr h \<Rightarrow> Some h)"
  by (simp add: initStateEvent_def init_catch_def emit_def println_def Let_def
      split: sum.split option.split exn.split)

lemma channel_releaseStateEvent:
  "channel (snd (releaseStateEvent r s)) = (case r of None \<Rightarrow> None | Some x \<Rightarrow> channel s)"
  by (simp add: releaseStateEvent_def emit_def println_def Let_def split: option.split)

text \<open>
  C3. When the allocation \<open>new polysync::CANChannel( _channelID, _flags )\<close> fails, the
  exception leaves \<open>initStateEvent\<close>: the statement stands before the \<open>try\<close> block. The
  message is not printed and \<open>activateFault\<close> is not called; the trace holds the first
  status line and the constructor call, nothing else. (A failure of \<open>setBitRate\<close> or
  \<open>goOnBus\<close> is reported and activates the fault once: \<open>initStateEvent_setBitRate_failure\<close>,
  \<open>initStateEvent_goOnBus_failure\<close>.)
\<close>

theorem initStateEvent_allocation_failure_escapes:
  "initStateEvent K (Inl x) setBitRate_r goOnBus_r (CANReaderNode K n) =
     (Throws x, (CANReaderNode K n)\<lparr>trace :=
        [Print ''CANReaderNode::initStateEvent()'',
         New_CANChannel n (PSYNC_CAN_OPEN_ALLOW_VIRTUAL K) (Inl x)]\<rparr>)"
  by (simp add: initStateEvent_def emit_def println_def CANReaderNode_def)

text \<open>
  C10. \<open>okStateEvent\<close> dereferences \<open>_channel\<close> without a check: the call is a null
  dereference exactly when the node holds no channel. The handle is null after the
  constructor, set by an \<open>initStateEvent\<close> whose allocation succeeded, and null again after
  a \<open>releaseStateEvent\<close> that ran to its end.
\<close>

theorem okStateEvent_null_dereference:
  "(fst (okStateEvent K read_r s) = NullDeref) = (channel s = None)
   \<and> channel (CANReaderNode K n) = None
   \<and> channel (snd (initStateEvent K (Inr h) setBitRate_r goOnBus_r s)) = Some h
   \<and> channel (snd (releaseStateEvent None s)) = None"
  by (simp add: channel_initStateEvent channel_releaseStateEvent)
    (simp add: okStateEvent_def CANReaderNode_def Let_def split: option.split sum.split exn.split)

subsection \<open>Teardown\<close>

lemmas callback_defs = initStateEvent_def okStateEvent_def releaseStateEvent_def
  errorStateEvent_def init_catch_def emit_def println_def

lemma releaseStateEvent_held:
  "channel s = Some h \<Longrightarrow>
   releaseStateEvent None s =
     (Returns, s\<lparr>channel := None, trace := trace s @
        [Print ''CANReaderNode::releaseStateEvent()'', GoOffBus h, Delete h]\<rparr>)"
  by (simp add: releaseStateEvent_def emit_def println_def)

lemma releaseStateEvent_not_held:
  "channel s = None \<Longrightarrow>
   releaseStateEvent r s =
     (Returns, s\<lparr>trace := trace s @ [Print ''CANReaderNode::releaseStateEvent()'']\<rparr>)"
  by (simp add: releaseStateEvent_def emit_def println_def)

lemma releaseStateEvent_Returns:
  "releaseStateEvent r s = (Returns, s') \<Longrightarrow> channel s' = None"
  by (auto simp: releaseStateEvent_def emit_def println_def Let_def split: option.splits)

lemma destructor_held:
  "channel s = Some h \<Longrightarrow>
   destructor None s = (Returns, s\<lparr>channel := None, trace := trace s @ [GoOffBus h, Delete h]\<rparr>)"
  by (simp add: destructor_def emit_def)

lemma destructor_not_held: "channel s = None \<Longrightarrow> destructor r s = (Returns, s)"
  by (simp add: destructor_def)

lemma destructor_Returns: "destructor r s = (Returns, s') \<Longrightarrow> channel s' = None"
  by (auto simp: destructor_def emit_def Let_def split: option.splits)

lemma releaseStateEvent_goOffBus_throws:
  "channel s = Some h \<Longrightarrow>
   releaseStateEvent (Some x) s =
     (Throws x, s\<lparr>trace := trace s @
        [Print ''CANReaderNode::releaseStateEvent()'', GoOffBus h]\<rparr>)"
  by (simp add: releaseStateEvent_def emit_def println_def)

lemma destructor_goOffBus_throws:
  "channel s = Some h \<Longrightarrow>
   destructor (Some x) s = (Throws x, s\<lparr>trace := trace s @ [GoOffBus h]\<rparr>)"
  by (simp add: destructor_def emit_def)

text \<open>
  C5, as amended. Teardown, in \<open>releaseStateEvent\<close> and in the destructor alike. With a
  channel held and \<open>goOffBus\<close> returning, it calls \<open>goOffBus\<close>, deletes the channel and
  clears the handle; when \<open>goOffBus\<close> throws, the exception leaves teardown after that one
  call and the handle stays set. With no channel held, teardown changes no member and calls
  nothing in the SDK (the callback still prints its status line). So a teardown that follows
  one that ran to its end is such a no-op, whatever \<open>goOffBus\<close> would answer then.
\<close>

theorem teardown_after_completed_teardown:
  "(channel s = Some h \<longrightarrow>
      releaseStateEvent None s =
        (Returns, s\<lparr>channel := None, trace := trace s @
           [Print ''CANReaderNode::releaseStateEvent()'', GoOffBus h, Delete h]\<rparr>)
      \<and> destructor None s =
        (Returns, s\<lparr>channel := None, trace := trace s @ [GoOffBus h, Delete h]\<rparr>)
      \<and> releaseStateEvent (Some x) s =
        (Throws x, s\<lparr>trace := trace s @
           [Print ''CANReaderNode::releaseStateEvent()'', GoOffBus h]\<rparr>)
      \<and> destructor (Some x) s = (Throws x, s\<lparr>trace := trace s @ [GoOffBus h]\<rparr>))
   \<and> (channel s = None \<longrightarrow>
      releaseStateEvent r s =
        (Returns, s\<lparr>trace := trace s @ [Print ''CANReaderNode::releaseStateEvent()'']\<rparr>)
      \<and> destructor r s = (Returns, s))
   \<and> (releaseStateEvent r1 s = (Returns, s') \<or> destructor r1 s = (Returns, s') \<longrightarrow>
      releaseStateEvent r2 s' =
        (Returns, s'\<lparr>trace := trace s' @ [Print ''CANReaderNode::releaseStateEvent()'']\<rparr>)
      \<and> destructor r2 s' = (Returns, s'))"
  using releaseStateEvent_Returns [of r1 s s'] destructor_Returns [of r1 s s']
  by (auto simp: releaseStateEvent_held releaseStateEvent_not_held destructor_held
      destructor_not_held releaseStateEvent_goOffBus_throws destructor_goOffBus_throws)

text \<open>C5, as amended, at a node that holds channel 7 and at one that holds none.\<close>

theorem teardown_after_completed_teardown_witness:
  "releaseStateEvent None ((CANReaderNode sample_sdk 5)\<lparr>channel := Some 7\<rparr>) =
     (Returns, (CANReaderNode sample_sdk 5)\<lparr>trace :=
        [Print ''CANReaderNode::releaseStateEvent()'', GoOffBus 7, Delete 7]\<rparr>)
   \<and> releaseStateEvent None
       ((CANReaderNode sample_sdk 5)\<lparr>trace :=
          [Print ''CANReaderNode::releaseStateEvent()'', GoOffBus 7, Delete 7]\<rparr>) =
     (Returns, (CANReaderNode sample_sdk 5)\<lparr>trace :=
        [Print ''CANReaderNode::releaseStateEvent()'', GoOffBus 7, Delete 7,
         Print ''CANReaderNode::releaseStateEvent()'']\<rparr>)
   \<and> destructor None
       ((CANReaderNode sample_sdk 5)\<lparr>trace :=
          [Print ''CANReaderNode::releaseStateEvent()'', GoOffBus 7, Delete 7]\<rparr>) =
     (Returns, (CANReaderNode sample_sdk 5)\<lparr>trace :=
        [Print ''CANReaderNode::releaseStateEvent()'', GoOffBus 7, Delete 7]\<rparr>)
   \<and> destructor (Some (DTCException 9 ''bus off'')) (CANReaderNode sample_sdk 5) =
     (Returns, CANReaderNode sample_sdk 5)"
  using teardown_after_completed_teardown
    [of "(CANReaderNode sample_sdk 5)\<lparr>channel := Some 7\<rparr>" 7 "DTCException 9 ''bus off''"
        None None
        "(CANReaderNode sample_sdk 5)\<lparr>trace :=
          [Print ''CANReaderNode::releaseStateEvent()'', GoOffBus 7, Delete 7]\<rparr>" None]
    teardown_after_completed_teardown
    [of "CANReaderNode sample_sdk 5" 7 "DTCException 9 ''bus off''"
        "Some (DTCException 9 ''bus off'')" None "CANReaderNode sample_sdk 5" None]
  by (simp add: CANReaderNode_def)

text \<open>
  C5 as stated fails: with a channel held and \<open>goOffBus\<close> throwing, \<open>releaseStateEvent\<close>
  neither deletes the channel nor clears the handle, and the next teardown is not a no-op:
  it calls \<open>goOffBus\<close> again.
\<close>

theorem teardown_goOffBus_failure_keeps_handle:
  "releaseStateEvent (Some (DTCException 9 ''bus off''))
       ((CANReaderNode sample_sdk 5)\<lparr>channel := Some 7\<rparr>) =
     (Throws (DTCException 9 ''bus off''),
      (CANReaderNode sample_sdk 5)\<lparr>channel := Some 7,
        trace := [Print ''CANReaderNode::releaseStateEvent()'', GoOffBus 7]\<rparr>)
   \<and> releaseStateEvent None
       ((CANReaderNode sample_sdk 5)\<lparr>channel := Some 7,
          trace := [Print ''CANReaderNode::releaseStateEvent()'', GoOffBus 7]\<rparr>) =
     (Returns,
      (CANReaderNode sample_sdk 5)\<lparr>trace :=
        [Print ''CANReaderNode::releaseStateEvent()'', GoOffBus 7,
         Print ''CANReaderNode::releaseStateEvent()'', GoOffBus 7, Delete 7]\<rparr>)"
  by (simp add: releaseStateEvent_goOffBus_throws releaseStateEvent_held CANReaderNode_def)

subsection \<open>The channel handle over a run\<close>

lemma allocated_handle_append:
  "allocated_handle (tr @ evs) = foldl held_step (allocated_handle tr) evs"
  by (simp add: allocated_handle_def)

lemma CANReaderNode_handle_invariant:
  "channel (CANReaderNode K n) = allocated_handle (trace (CANReaderNode K n))"
  by (simp add: CANReaderNode_def allocated_handle_def)

lemma dispatch_handle_invariant:
  "channel s = allocated_handle (trace s) \<Longrightarrow>
   channel (snd (dispatch K cb s)) = allocated_handle (trace (snd (dispatch K cb s)))"
  by (cases cb)
    (auto simp: callback_defs allocated_handle_append Let_def
      split: sum.splits option.splits exn.splits)

lemma run_handle_invariant:
  "channel s = allocated_handle (trace s) \<Longrightarrow>
   channel (snd (run K cbs s)) = allocated_handle (trace (snd (run K cbs s)))"
proof (induction cbs arbitrary: s)
  case Nil
  then show ?case by simp
next
  case (Cons cb cbs)
  obtain out s' where d: "dispatch K cb s = (out, s')"
    by (cases "dispatch K cb s")
  from dispatch_handle_invariant [OF Cons.prems, of K cb] d
  have inv: "channel s' = allocated_handle (trace s')"
    by simp
  show ?case
  proof (cases out)
    case NullDeref
    with d inv show ?thesis by simp
  next
    case Returns
    with d Cons.IH [OF inv] show ?thesis by simp
  next
    case (Throws x)
    with d Cons.IH [OF inv] show ?thesis by simp
  qed
qed

text \<open>
  C6, as amended. After any sequence of callbacks on a freshly constructed node, the handle
  is the channel that the trace has allocated and not deleted: it is null before the first
  successful allocation and after a completed teardown, and non-null in between. The
  allocation is the first step of \<open>initStateEvent\<close>, so the handle is also held when
  \<open>setBitRate\<close> or \<open>goOnBus\<close> fails afterwards (teardown releases it later); it is left
  as it was only when the allocation itself throws.
\<close>

theorem channel_held_from_allocation_to_delete:
  "channel (snd (run K cbs (CANReaderNode K n))) =
     allocated_handle (trace (snd (run K cbs (CANReaderNode K n))))
   \<and> channel (snd (initStateEvent K (Inr h) (Some x) goOnBus_r s)) = Some h
   \<and> channel (snd (initStateEvent K (Inr h) None (Some x) s)) = Some h
   \<and> channel (snd (initStateEvent K (Inl x) setBitRate_r goOnBus_r s)) = channel s"
  by (simp add: run_handle_invariant CANReaderNode_handle_invariant channel_initStateEvent)

text \<open>
  C6 as stated fails: an initialisation whose \<open>setBitRate\<close> throws reports the fault and
  returns with the handle still set.
\<close>

theorem failed_init_keeps_handle:
  "initStateEvent sample_sdk (Inr 7) (Some (DTCException 9 ''bad rate'')) None
     (CANReaderNode sample_sdk 5) =
     (Returns,
      \<lparr>channel = Some 7, channelID = 5, flags = 1, bitRate = 2,
       trace =
         [Print ''CANReaderNode::initStateEvent()'', New_CANChannel 5 1 (Inr 7),
          Print ''before psync calls'', SetBitRate 7 2, Print ''exception'',
          Print ''bad rate'', ActivateFault 9 3]\<rparr>)
   \<and> channel (snd (initStateEvent sample_sdk (Inr 7) (Some (DTCException 9 ''bad rate'')) None
       (CANReaderNode sample_sdk 5))) \<noteq> None"
  by (simp add: initStateEvent_setBitRate_failure CANReaderNode_def)

subsection \<open>Calls over a run\<close>













lemma sample_run:
  "run sample_sdk
     [InitStateEvent (Inr 7) None None, OkStateEvent (Inr sample_frame), ReleaseStateEvent None]
     (emit (SetNodeName ''polysync-can-reader-cpp'') (CANReaderNode sample_sdk i)) =
   (Returns,
    \<lparr>channel = None, channelID = i, flags = 1, bitRate = 2,
     trace =
       [SetNodeName ''polysync-can-reader-cpp'',
        Print ''CANReaderNode::initStateEvent()'', New_CANChannel i 1 (Inr 7),
        Print ''before psync calls'', SetBitRate 7 2, GoOnBus 7, Print ''after psync calls'',
        Read 7, Print ''CAN frame - ID: 0x291'', Print ''DLC: 4'',
        Print ''CANReaderNode::releaseStateEvent()'', GoOffBus 7, Delete 7]\<rparr>)"
  by (simp add: callback_defs CANReaderNode_def sample_frame_def decimal_291 decimal_4)

lemma main_sample_host:
  "stoul arg = Inr n \<Longrightarrow>
   main sample_sdk sample_host [prog, arg] =
     (Exit 0,
      [SetNodeName ''polysync-can-reader-cpp'',
       Print ''CANReaderNode::initStateEvent()'', New_CANChannel (ucast n) 1 (Inr 7),
       Print ''before psync calls'', SetBitRate 7 2, GoOnBus 7, Print ''after psync calls'',
       Read 7, Print ''CAN frame - ID: 0x291'', Print ''DLC: 4'',
       Print ''CANReaderNode::releaseStateEvent()'', GoOffBus 7, Delete 7])"
  by (simp add: main_def try_block_def sample_host_def sample_run destructor_def
      del: run.simps)

lemma throwing_host_run:
  "connectPolySync throwing_host
     (emit (SetNodeName ''polysync-can-reader-cpp'') (CANReaderNode sample_sdk i)) =
   (Throws (DTCException 9 ''bus off''),
    \<lparr>channel = Some 7, channelID = i, flags = 1, bitRate = 2,
     trace =
       [SetNodeName ''polysync-can-reader-cpp'',
        Print ''CANReaderNode::initStateEvent()'', New_CANChannel i 1 (Inr 7),
        Print ''before psync calls'', SetBitRate 7 2, GoOnBus 7, Print ''after psync calls'']\<rparr>)"
  by (simp add: throwing_host_def callback_defs CANReaderNode_def)



subsection \<open>\<open>main\<close>\<close>

lemma main_no_argument: "length argv \<le> 1 \<Longrightarrow> main K E argv = (Exit 1, usage_missing)"
  by (simp add: main_def)

lemma main_stoul_throws:
  "1 < length argv \<Longrightarrow> stoul (argv ! 1) = Inl x \<Longrightarrow> main K E argv = (Exit 1, usage_invalid)"
  using stoul_Inl [of "argv ! 1" x] by (auto simp: main_def main_catch_def)

text \<open>
  C4, as amended. With no argument, and with an argument that \<open>std::stoul\<close> rejects,
  \<open>main\<close> prints a usage hint and returns 1. The two hints end with the same example line
  and differ in their first line: \<open>Must pass CAN channel argument.\<close> for the missing
  argument, \<open>Invalid argument. ...\<close> for the rejected one.
\<close>

theorem main_usage_on_bad_arguments:
  "(length argv \<le> 1 \<longrightarrow> main K E argv = (Exit 1, usage_missing))
   \<and> (1 < length argv \<and> stoul (argv ! 1) = Inl x \<longrightarrow> main K E argv = (Exit 1, usage_invalid))
   \<and> usage_missing ! 1 = Print ''For example: polysync-can-reader-cpp 1''
   \<and> usage_invalid ! 1 = Print ''For example: polysync-can-reader-cpp 1''
   \<and> usage_missing ! 0 = Print ''Must pass CAN channel argument.''
   \<and> usage_invalid ! 0 =
       Print ''Invalid argument. This example requires valid integer input representing a CAN channel.''"
  by (simp add: main_no_argument main_stoul_throws) (simp add: usage_missing_def usage_invalid_def)

text \<open>C4, as amended, at no argument, at \<open>abc\<close> and at a numeral beyond \<open>ULONG_MAX\<close>.\<close>

theorem main_usage_on_bad_arguments_witness:
  "main sample_sdk sample_host [''polysync-can-reader-cpp''] = (Exit 1, usage_missing)
   \<and> main sample_sdk sample_host [] = (Exit 1, usage_missing)
   \<and> main sample_sdk sample_host [''polysync-can-reader-cpp'', ''abc''] = (Exit 1, usage_invalid)
   \<and> main sample_sdk sample_host [''polysync-can-reader-cpp'', ''18446744073709551616''] =
       (Exit 1, usage_invalid)"
  using main_usage_on_bad_arguments [of "[''polysync-can-reader-cpp'']" sample_sdk sample_host]
    main_usage_on_bad_arguments [of "[]" sample_sdk sample_host]
    main_usage_on_bad_arguments
      [of "[''polysync-can-reader-cpp'', ''abc'']" sample_sdk sample_host invalid_argument]
    main_usage_on_bad_arguments
      [of "[''polysync-can-reader-cpp'', ''18446744073709551616'']" sample_sdk sample_host
          out_of_range]
  by (simp add: stoul_abc stoul_too_large)

text \<open>C4 as stated fails: both calls return 1, and what they print is not the same.\<close>

theorem usage_messages_differ:
  "fst (main sample_sdk sample_host [''polysync-can-reader-cpp'']) = Exit 1
   \<and> fst (main sample_sdk sample_host [''polysync-can-reader-cpp'', ''abc'']) = Exit 1
   \<and> snd (main sample_sdk sample_host [''polysync-can-reader-cpp'']) \<noteq>
       snd (main sample_sdk sample_host [''polysync-can-reader-cpp'', ''abc''])"
  by (simp add: main_def main_catch_def stoul_abc usage_missing_def usage_invalid_def)

lemma try_block_ctor_throws:
  "Node_ctor_r E = Some x \<Longrightarrow> is_std_exception x \<Longrightarrow>
   try_block K E n = (Exit 1, usage_invalid)"
  by (simp add: try_block_def main_catch_def)

lemma try_block_setNodeName_throws:
  "Node_ctor_r E = None \<Longrightarrow> setNodeName_r E = Some x \<Longrightarrow> is_std_exception x \<Longrightarrow>
   try_block K E n = (Exit 1, SetNodeName ''polysync-can-reader-cpp'' # usage_invalid)"
  by (simp add: try_block_def unwind_def main_catch_def destructor_def CANReaderNode_def emit_def)

lemma try_block_connectPolySync_throws:
  "Node_ctor_r E = None \<Longrightarrow> setNodeName_r E = None \<Longrightarrow> is_std_exception x \<Longrightarrow>
   connectPolySync E (emit (SetNodeName ''polysync-can-reader-cpp'') (CANReaderNode K (ucast n))) =
     (Throws x, s2) \<Longrightarrow>
   destructor (dtor_goOffBus_r E) s2 = (Returns, s3) \<Longrightarrow>
   try_block K E n = (Exit 1, trace s3 @ usage_invalid)"
  by (simp add: try_block_def unwind_def main_catch_def)

lemma try_block_destructor_throws:
  "Node_ctor_r E = None \<Longrightarrow> setNodeName_r E = None \<Longrightarrow> is_std_exception x \<Longrightarrow>
   connectPolySync E (emit (SetNodeName ''polysync-can-reader-cpp'') (CANReaderNode K (ucast n))) =
     (Throws x, s2) \<Longrightarrow>
   destructor (dtor_goOffBus_r E) s2 = (Throws y, s3) \<Longrightarrow>
   try_block K E n = (Terminate, trace s3)"
  by (simp add: try_block_def unwind_def)

lemma try_block_Exit_0:
  "fst (try_block K E n) = Exit 0 \<Longrightarrow>
   Node_ctor_r E = None \<and> setNodeName_r E = None
   \<and> fst (connectPolySync E
        (emit (SetNodeName ''polysync-can-reader-cpp'') (CANReaderNode K (ucast n)))) = Returns"
  by (auto simp: try_block_def unwind_def main_catch_def Let_def
      split: option.splits prod.splits outcome.splits if_splits)


text \<open>
  C8, as amended. The argument is read by \<open>std::stoul\<close>, and an exception \<open>x\<close> derived from
  \<open>std::exception\<close> leaves the constructor of the base class, \<open>setNodeName\<close> or
  \<open>connectPolySync\<close>. In the first two cases \<open>main\<close> prints the invalid-argument hint and
  returns 1. In the third the destructor of the node runs first: when it returns, \<open>main\<close>
  prints the hint and returns 1; when \<open>goOffBus\<close> throws in it, \<open>std::terminate\<close> ends the
  process and nothing more is printed. \<open>main\<close> returns 0 only when \<open>connectPolySync\<close>
  returned.
\<close>

theorem main_catches_std_exceptions:
  "1 < length argv \<Longrightarrow> stoul (argv ! 1) = Inr n \<Longrightarrow> is_std_exception x \<Longrightarrow>
     (Node_ctor_r E = Some x \<longrightarrow> main K E argv = (Exit 1, usage_invalid))
   \<and> (Node_ctor_r E = None \<and> setNodeName_r E = Some x \<longrightarrow>
        main K E argv = (Exit 1, SetNodeName ''polysync-can-reader-cpp'' # usage_invalid))
   \<and> (Node_ctor_r E = None \<and> setNodeName_r E = None
        \<and> connectPolySync E
            (emit (SetNodeName ''polysync-can-reader-cpp'') (CANReaderNode K (ucast n))) =
            (Throws x, s2)
        \<and> destructor (dtor_goOffBus_r E) s2 = (Returns, s3) \<longrightarrow>
        main K E argv = (Exit 1, trace s3 @ usage_invalid))
   \<and> (Node_ctor_r E = None \<and> setNodeName_r E = None
        \<and> connectPolySync E
            (emit (SetNodeName ''polysync-can-reader-cpp'') (CANReaderNode K (ucast n))) =
            (Throws x, s2)
        \<and> destructor (dtor_goOffBus_r E) s2 = (Throws y, s3) \<longrightarrow>
        main K E argv = (Terminate, trace s3))
   \<and> (fst (main K E argv) = Exit 0 \<longrightarrow>
        Node_ctor_r E = None \<and> setNodeName_r E = None
        \<and> fst (connectPolySync E
            (emit (SetNodeName ''polysync-can-reader-cpp'') (CANReaderNode K (ucast n)))) = Returns)"
proof -
  assume "1 < length argv" and "stoul (argv ! 1) = Inr n" and x: "is_std_exception x"
  then have m: "main K E argv = try_block K E n"
    by (simp add: main_def)
  have 1: "Node_ctor_r E = Some x \<longrightarrow> try_block K E n = (Exit 1, usage_invalid)"
    using x by (blast intro: try_block_ctor_throws)
  have 2: "Node_ctor_r E = None \<and> setNodeName_r E = Some x \<longrightarrow>
      try_block K E n = (Exit 1, SetNodeName ''polysync-can-reader-cpp'' # usage_invalid)"
    using x by (blast intro: try_block_setNodeName_throws)
  have 3: "Node_ctor_r E = None \<and> setNodeName_r E = None
      \<and> connectPolySync E
          (emit (SetNodeName ''polysync-can-reader-cpp'') (CANReaderNode K (ucast n))) =
          (Throws x, s2)
      \<and> destructor (dtor_goOffBus_r E) s2 = (Returns, s3) \<longrightarrow>
      try_block K E n = (Exit 1, trace s3 @ usage_invalid)"
    using x by (blast intro: try_block_connectPolySync_throws)
  have 5: "Node_ctor_r E = None \<and> setNodeName_r E = None
      \<and> connectPolySync E
          (emit (SetNodeName ''polysync-can-reader-cpp'') (CANReaderNode K (ucast n))) =
          (Throws x, s2)
      \<and> destructor (dtor_goOffBus_r E) s2 = (Throws y, s3) \<longrightarrow>
      try_block K E n = (Terminate, trace s3)"
    using x by (blast intro: try_block_destructor_throws)
  have 4: "fst (try_block K E n) = Exit 0 \<longrightarrow>
      Node_ctor_r E = None \<and> setNodeName_r E = None
      \<and> fst (connectPolySync E
          (emit (SetNodeName ''polysync-can-reader-cpp'') (CANReaderNode K (ucast n)))) = Returns"
    by (blast dest: try_block_Exit_0)
  from 1 2 3 4 5 show ?thesis
    unfolding m by blast
qed

text \<open>C8, as amended, at a throwing base constructor, a throwing \<open>setNodeName\<close>, a
  \<open>connectPolySync\<close> that throws after initialisation, and the sample runtime.\<close>

theorem main_catches_std_exceptions_witness:
  "main sample_sdk (sample_host\<lparr>Node_ctor_r := Some (StdException ''std::bad_alloc'')\<rparr>)
       [''polysync-can-reader-cpp'', ''5''] = (Exit 1, usage_invalid)
   \<and> main sample_sdk (sample_host\<lparr>setNodeName_r := Some (DTCException 9 ''no name'')\<rparr>)
       [''polysync-can-reader-cpp'', ''5''] =
       (Exit 1, SetNodeName ''polysync-can-reader-cpp'' # usage_invalid)
   \<and> main sample_sdk throwing_host [''polysync-can-reader-cpp'', ''5''] =
       (Exit 1,
        [SetNodeName ''polysync-can-reader-cpp'',
         Print ''CANReaderNode::initStateEvent()'', New_CANChannel 5 1 (Inr 7),
         Print ''before psync calls'', SetBitRate 7 2, GoOnBus 7, Print ''after psync calls'',
         GoOffBus 7, Delete 7] @ usage_invalid)
   \<and> main sample_sdk (throwing_host\<lparr>dtor_goOffBus_r := Some (StdException ''off bus'')\<rparr>)
       [''polysync-can-reader-cpp'', ''5''] =
       (Terminate,
        [SetNodeName ''polysync-can-reader-cpp'',
         Print ''CANReaderNode::initStateEvent()'', New_CANChannel 5 1 (Inr 7),
         Print ''before psync calls'', SetBitRate 7 2, GoOnBus 7, Print ''after psync calls'',
         GoOffBus 7])
   \<and> fst (main sample_sdk sample_host [''polysync-can-reader-cpp'', ''5'']) = Exit 0
   \<and> fst (connectPolySync sample_host
        (emit (SetNodeName ''polysync-can-reader-cpp'') (CANReaderNode sample_sdk 5))) = Returns"
proof -
  let ?argv = "[''polysync-can-reader-cpp'', ''5'']"
  let ?s1 = "emit (SetNodeName ''polysync-can-reader-cpp'') (CANReaderNode sample_sdk 5)"
  let ?s2 = "\<lparr>channel = Some 7, channelID = 5, flags = 1, bitRate = 2,
    trace =
      [SetNodeName ''polysync-can-reader-cpp'',
       Print ''CANReaderNode::initStateEvent()'', New_CANChannel 5 1 (Inr 7),
       Print ''before psync calls'', SetBitRate 7 2, GoOnBus 7,
       Print ''after psync calls'']\<rparr>"
  let ?s3 = "\<lparr>channel = None, channelID = 5, flags = 1, bitRate = 2,
    trace =
      [SetNodeName ''polysync-can-reader-cpp'',
       Print ''CANReaderNode::initStateEvent()'', New_CANChannel 5 1 (Inr 7),
       Print ''before psync calls'', SetBitRate 7 2, GoOnBus 7,
       Print ''after psync calls'', GoOffBus 7, Delete 7]\<rparr>"
  have len: "1 < length ?argv"
    by simp
  have arg: "stoul (?argv ! 1) = Inr 5"
    by (simp add: stoul_5)
  note inst = main_catches_std_exceptions [OF len arg]
  have a: "main sample_sdk (sample_host\<lparr>Node_ctor_r := Some (StdException ''std::bad_alloc'')\<rparr>)
      ?argv = (Exit 1, usage_invalid)"
    using inst [of "StdException ''std::bad_alloc''"
        "sample_host\<lparr>Node_ctor_r := Some (StdException ''std::bad_alloc'')\<rparr>" sample_sdk]
    by simp
  have b: "main sample_sdk (sample_host\<lparr>setNodeName_r := Some (DTCException 9 ''no name'')\<rparr>)
      ?argv = (Exit 1, SetNodeName ''polysync-can-reader-cpp'' # usage_invalid)"
    using inst [of "DTCException 9 ''no name''"
        "sample_host\<lparr>setNodeName_r := Some (DTCException 9 ''no name'')\<rparr>" sample_sdk]
    by (simp add: sample_host_def)
  have run: "connectPolySync throwing_host ?s1 = (Throws (DTCException 9 ''bus off''), ?s2)"
    by (simp add: throwing_host_run)
  have dtor: "destructor (dtor_goOffBus_r throwing_host) ?s2 = (Returns, ?s3)"
    by (simp add: throwing_host_def destructor_def emit_def)
  have c: "main sample_sdk throwing_host ?argv = (Exit 1, trace ?s3 @ usage_invalid)"
    using inst [of "DTCException 9 ''bus off''" throwing_host sample_sdk ?s2 ?s3] run dtor
    by (simp add: throwing_host_def)
  let ?E = "throwing_host\<lparr>dtor_goOffBus_r := Some (StdException ''off bus'')\<rparr>"
  let ?s4 = "?s2\<lparr>trace := trace ?s2 @ [GoOffBus 7]\<rparr>"
  have run': "connectPolySync ?E ?s1 = (Throws (DTCException 9 ''bus off''), ?s2)"
    by (simp add: throwing_host_run)
  have dtor': "destructor (dtor_goOffBus_r ?E) ?s2 = (Throws (StdException ''off bus''), ?s4)"
    by (simp add: destructor_goOffBus_throws)
  have f: "main sample_sdk ?E ?argv = (Terminate, trace ?s4)"
    using inst [of "DTCException 9 ''bus off''" ?E sample_sdk ?s2 ?s4 "StdException ''off bus''"]
      run' dtor'
    by (simp add: throwing_host_def)
  have d: "fst (main sample_sdk sample_host ?argv) = Exit 0"
    by (simp add: main_sample_host [OF stoul_5])
  have e: "fst (connectPolySync sample_host ?s1) = Returns"
    using inst [of "DTCException 9 ''bus off''" sample_host sample_sdk] d
    by simp
  from a b c d e f show ?thesis
    by simp
qed

text \<open>
  C8 as stated fails: \<open>connectPolySync\<close> lets a \<open>DTCException\<close> escape while the node
  holds its channel, and \<open>goOffBus\<close> throws again in the destructor. The handler of
  \<open>main\<close> is never entered: no hint is printed and no code is returned.
\<close>

theorem main_terminates_when_destructor_throws:
  "main sample_sdk (throwing_host\<lparr>dtor_goOffBus_r := Some (DTCException 9 ''bus off'')\<rparr>)
     [''polysync-can-reader-cpp'', ''5''] =
   (Terminate,
    [SetNodeName ''polysync-can-reader-cpp'',
     Print ''CANReaderNode::initStateEvent()'', New_CANChannel 5 1 (Inr 7),
     Print ''before psync calls'', SetBitRate 7 2, GoOnBus 7, Print ''after psync calls'',
     GoOffBus 7])"
proof -
  let ?E = "throwing_host\<lparr>dtor_goOffBus_r := Some (DTCException 9 ''bus off'')\<rparr>"
  let ?s2 = "\<lparr>channel = Some 7, channelID = 5, flags = 1, bitRate = 2,
    trace =
      [SetNodeName ''polysync-can-reader-cpp'',
       Print ''CANReaderNode::initStateEvent()'', New_CANChannel 5 1 (Inr 7),
       Print ''before psync calls'', SetBitRate 7 2, GoOnBus 7,
       Print ''after psync calls'']\<rparr>"
  have E: "Node_ctor_r ?E = None" "setNodeName_r ?E = None"
    by (simp_all add: throwing_host_def)
  have x: "is_std_exception (DTCException 9 ''bus off'')"
    by simp
  have run: "connectPolySync ?E
      (emit (SetNodeName ''polysync-can-reader-cpp'')
        (CANReaderNode sample_sdk (ucast (5 :: c_ulong)))) =
      (Throws (DTCException 9 ''bus off''), ?s2)"
    by (simp add: throwing_host_run)
  have dtor: "destructor (dtor_goOffBus_r ?E) ?s2 =
      (Throws (DTCException 9 ''bus off''), ?s2\<lparr>trace := trace ?s2 @ [GoOffBus 7]\<rparr>)"
    by (simp add: destructor_goOffBus_throws)
  from try_block_destructor_throws [OF E x run dtor]
  show ?thesis
    by (simp add: main_def stoul_5)
qed

text \<open>
  C9. \<open>std::stoul\<close> accepts \<open>-1\<close> (the value wraps to \<open>ULONG_MAX\<close>, and to 4294967295 in
  the \<open>uint\<close> parameter) and \<open>5abc\<close> (read as 5). With either argument \<open>main\<close> enters
  the \<open>try\<close> block like with a numeral; with the sample runtime it opens channel 4294967295
  or 5, reads, and returns 0, and no usage hint is printed.
\<close>

theorem stoul_accepts_non_numerals:
  "stoul ''-1'' = Inr (- 1) \<and> (ucast (- 1 :: c_ulong) :: c_uint) = 4294967295
   \<and> stoul ''5abc'' = Inr 5
   \<and> main K E [prog, ''-1''] = try_block K E (- 1)
   \<and> main K E [prog, ''5abc''] = try_block K E 5
   \<and> main sample_sdk sample_host [prog, ''-1''] =
       (Exit 0,
        [SetNodeName ''polysync-can-reader-cpp'',
         Print ''CANReaderNode::initStateEvent()'', New_CANChannel 4294967295 1 (Inr 7),
         Print ''before psync calls'', SetBitRate 7 2, GoOnBus 7, Print ''after psync calls'',
         Read 7, Print ''CAN frame - ID: 0x291'', Print ''DLC: 4'',
         Print ''CANReaderNode::releaseStateEvent()'', GoOffBus 7, Delete 7])
   \<and> main sample_sdk sample_host [prog, ''5abc''] =
       (Exit 0,
        [SetNodeName ''polysync-can-reader-cpp'',
         Print ''CANReaderNode::initStateEvent()'', New_CANChannel 5 1 (Inr 7),
         Print ''before psync calls'', SetBitRate 7 2, GoOnBus 7, Print ''after psync calls'',
         Read 7, Print ''CAN frame - ID: 0x291'', Print ''DLC: 4'',
         Print ''CANReaderNode::releaseStateEvent()'', GoOffBus 7, Delete 7])"
proof -
  have 1: "main K E [prog, ''-1''] = try_block K E (- 1)"
    by (simp add: main_def stoul_minus_1)
  have 2: "main K E [prog, ''5abc''] = try_block K E 5"
    by (simp add: main_def stoul_5abc)
  from 1 2 main_sample_host [OF stoul_minus_1, of prog] main_sample_host [OF stoul_5abc, of prog]
  show ?thesis
    by (simp add: stoul_minus_1 stoul_5abc ucast_minus_1)
qed

end
